theory Spec2Isabelle
  imports Main "HOL-Library.Char_ord" "HOL-Library.Monad_Syntax"
begin

section \<open>Characters and strings of the deck format\<close>

text \<open>
  The reader of \<^verbatim>\<open>src/io/RadFileReader.cpp\<close> works on \<^verbatim>\<open>std::string\<close>: a sequence of
  bytes, here \<^typ>\<open>string\<close>.  The helpers below are the library calls the reader makes,
  restricted to the way it calls them.
\<close>

definition TAB :: char where "TAB = CHR 0x09"
definition LF :: char where "LF = CHR 0x0A"
definition VT :: char where "VT = CHR 0x0B"
definition FF :: char where "FF = CHR 0x0C"
definition CR :: char where "CR = CHR 0x0D"

text \<open>The set \<^verbatim>\<open>" \t\r\n"\<close> that \<^verbatim>\<open>trim\<close> passes to \<^verbatim>\<open>find_first_not_of\<close>.\<close>

definition trim_ws :: "char \<Rightarrow> bool" where
  "trim_ws c = (c = CHR '' '' \<or> c = TAB \<or> c = CR \<or> c = LF)"

text \<open>\<^verbatim>\<open>isspace\<close> and \<^verbatim>\<open>isdigit\<close> of the C locale, \<^verbatim>\<open>::toupper\<close> on ASCII letters.\<close>

definition isspace :: "char \<Rightarrow> bool" where
  "isspace c = (c = CHR '' '' \<or> c = TAB \<or> c = LF \<or> c = VT \<or> c = FF \<or> c = CR)"

definition isdigit :: "char \<Rightarrow> bool" where
  "isdigit c = (CHR ''0'' \<le> c \<and> c \<le> CHR ''9'')"

definition toupper :: "char \<Rightarrow> char" where
  "toupper c = (if CHR ''a'' \<le> c \<and> c \<le> CHR ''z''
                then char_of (of_char c - (32::nat)) else c)"

text \<open>
  \<^verbatim>\<open>str.find_first_not_of(" \t\r\n")\<close> and \<^verbatim>\<open>str.find_last_not_of(" \t\r\n")\<close>:
  the position of the first (last) character outside the set, \<open>None\<close> for \<^verbatim>\<open>npos\<close>.
\<close>

fun find_first_not_of :: "string \<Rightarrow> nat option" where
  "find_first_not_of [] = None"
| "find_first_not_of (c # cs) =
     (if trim_ws c then map_option Suc (find_first_not_of cs) else Some 0)"

definition find_last_not_of :: "string \<Rightarrow> nat option" where
  "find_last_not_of s =
     map_option (\<lambda>k. length s - 1 - k) (find_first_not_of (rev s))"

text \<open>\<^verbatim>\<open>str.substr(pos, len)\<close> for \<open>pos \<le> size\<close>, the only way the reader calls it.\<close>

definition substr :: "string \<Rightarrow> nat \<Rightarrow> nat \<Rightarrow> string" where
  "substr s pos len = take len (drop pos s)"

text \<open>\<^verbatim>\<open>RadFileReader::trim\<close>.\<close>

definition trim :: "string \<Rightarrow> string" where
  "trim str =
     (case find_first_not_of str of
        None \<Rightarrow> []
      | Some start \<Rightarrow>
          (case find_last_not_of str of
             None \<Rightarrow> []
           | Some end \<Rightarrow> substr str start (end - start + 1)))"

text \<open>\<^verbatim>\<open>RadFileReader::isComment\<close> and \<^verbatim>\<open>RadFileReader::isEmpty\<close>.\<close>

definition isComment :: "string \<Rightarrow> bool" where
  "isComment line =
     (let trimmed = trim line
      in trimmed = [] \<or> hd trimmed = CHR ''#'' \<or> hd trimmed = CHR ''C'' \<or> hd trimmed = CHR ''c'')"

definition isEmpty :: "string \<Rightarrow> bool" where
  "isEmpty line = (trim line = [])"


text \<open>
  \<^verbatim>\<open>std::getline(stream, piece, delim)\<close> called until it fails: the pieces between
  delimiters.  At the end of the input a piece is returned only when at least one
  character was read, so a trailing delimiter yields no empty last piece.
\<close>

function getlines :: "char \<Rightarrow> string \<Rightarrow> string list" where
  "getlines d s =
     (if s = [] then []
      else let piece = takeWhile (\<lambda>c. c \<noteq> d) s;
               rest = dropWhile (\<lambda>c. c \<noteq> d) s
           in if rest = [] then [piece] else piece # getlines d (tl rest))"
  by pat_completeness auto
termination
proof (relation "measure (\<lambda>(d, s). length s)")
  show "wf (measure (\<lambda>(d, s). length s))" by simp
next
  fix d :: char and s x xa :: string
  assume "s \<noteq> []" and "xa = dropWhile (\<lambda>c. c \<noteq> d) s" and "xa \<noteq> []"
  then have "length (tl xa) < length xa" and "length xa \<le> length s"
    by (simp_all add: length_dropWhile_le)
  then show "((d, tl xa), (d, s)) \<in> measure (\<lambda>(d, s). length s)" by simp
qed

text \<open>\<^verbatim>\<open>RadFileReader::tokenizeLine(line)\<close> with its default delimiter, the space.\<close>

definition tokenizeLine :: "string \<Rightarrow> string list" where
  "tokenizeLine line = filter (\<lambda>token. token \<noteq> []) (map trim (getlines (CHR '' '') line))"

text \<open>\<^verbatim>\<open>hay.find(needle) != std::string::npos\<close>.\<close>

definition starts_with :: "string \<Rightarrow> string \<Rightarrow> bool" where
  "starts_with s pat = (take (length pat) s = pat)"

fun str_contains :: "string \<Rightarrow> string \<Rightarrow> bool" where
  "str_contains [] pat = (pat = [])"
| "str_contains (c # cs) pat = (starts_with (c # cs) pat \<or> str_contains cs pat)"

text \<open>
  \<^verbatim>\<open>std::stoi\<close>: \<^verbatim>\<open>strtol\<close> in base 10 skips leading white space, reads an optional
  sign and the longest run of digits, and ignores what follows.  No digit is
  \<^verbatim>\<open>std::invalid_argument\<close>, a value outside the 32-bit \<^verbatim>\<open>int\<close> is
  \<^verbatim>\<open>std::out_of_range\<close>; every caller catches both as \<^verbatim>\<open>std::exception\<close>, here \<open>None\<close>.
\<close>

definition digit_value :: "char \<Rightarrow> int" where
  "digit_value c = of_char c - of_char (CHR ''0'')"

definition digits_value :: "string \<Rightarrow> int" where
  "digits_value ds = foldl (\<lambda>a c. 10 * a + digit_value c) 0 ds"

definition stoi :: "string \<Rightarrow> int option" where
  "stoi str =
     (let r = dropWhile isspace str;
          neg = (r \<noteq> [] \<and> hd r = CHR ''-'');
          r1 = (if r \<noteq> [] \<and> (hd r = CHR ''-'' \<or> hd r = CHR ''+'') then tl r else r);
          ds = takeWhile isdigit r1
      in if ds = [] then None
         else let v = (if neg then - digits_value ds else digits_value ds)
              in if - (2 ^ 31) \<le> v \<and> v \<le> 2 ^ 31 - 1 then Some v else None)"

text \<open>\<^verbatim>\<open>std::to_string(int)\<close>, also what \<^verbatim>\<open>operator<<\<close> prints for an \<^verbatim>\<open>int\<close>.\<close>

fun digits :: "nat \<Rightarrow> string" where
  "digits n =
     (if n < 10 then [''0123456789'' ! n]
      else digits (n div 10) @ [''0123456789'' ! (n mod 10)])"

definition to_string :: "int \<Rightarrow> string" where
  "to_string i = (if i < 0 then CHR ''-'' # digits (nat (- i)) else digits (nat i))"

text \<open>\<^verbatim>\<open>std::setw(w)\<close> before one output: right-justified, filled with spaces.\<close>

definition setw :: "nat \<Rightarrow> string \<Rightarrow> string" where
  "setw w str = replicate (w - length str) (CHR '' '') @ str"

text \<open>
  \<^verbatim>\<open>std::regex_search\<close> with the pattern \<^verbatim>\<open>version\s*(\d+(?:\.\d+)?)\<close> of
  \<^verbatim>\<open>parseHeader\<close>: the leftmost position where the literal is followed, after optional
  white space, by digits; the result is the first capture group.
\<close>

definition version_at :: "string \<Rightarrow> string option" where
  "version_at rest =
     (let r = dropWhile isspace rest;
          ds = takeWhile isdigit r;
          r2 = dropWhile isdigit r
      in if ds = [] then None
         else if r2 \<noteq> [] \<and> hd r2 = CHR ''.'' \<and> takeWhile isdigit (tl r2) \<noteq> []
              then Some (ds @ CHR ''.'' # takeWhile isdigit (tl r2))
              else Some ds)"

fun regex_search_version :: "string \<Rightarrow> string option" where
  "regex_search_version [] = None"
| "regex_search_version (c # cs) =
     (if starts_with (c # cs) ''version''
      then (case version_at (drop 7 (c # cs)) of
              Some v \<Rightarrow> Some v
            | None \<Rightarrow> regex_search_version cs)
      else regex_search_version cs)"

section \<open>What the platform decides\<close>

text \<open>The enumeration \<^verbatim>\<open>Element::Type\<close> of \<^verbatim>\<open>RadFileReader.h\<close>.\<close>

datatype ElementType = UNKNOWN | TRIA3 | QUAD4 | TETRA4 | HEXA8 | PENTA6 | PYRAM5

text \<open>
  Coordinates are \<^verbatim>\<open>float\<close>, magnitudes and attribute values \<^verbatim>\<open>double\<close>.  Their
  types are the parameters \<open>'f\<close> and \<open>'d\<close>; the comparison \<^verbatim>\<open><\<close> and the constant
  \<^verbatim>\<open>0.0\<close> come from the type classes \<open>ord\<close> and \<open>zero\<close>, with no law assumed
  of them.  The conversions are parameters too: \<open>stof\<close> and \<open>stod\<close> stand for
  \<^verbatim>\<open>std::stof\<close> and \<^verbatim>\<open>std::stod\<close> (\<open>None\<close> when they throw), \<open>fmt_f\<close> and \<open>fmt_d\<close> for
  the text \<^verbatim>\<open>operator<<\<close> produces under \<^verbatim>\<open>std::scientific\<close> and
  \<^verbatim>\<open>std::setprecision(6)\<close>.

  The order in which a \<^verbatim>\<open>std::unordered_map\<close> is iterated is decided by the hash table
  of the standard library.  It is a parameter as well: \<open>type_order\<close> and \<open>attr_order\<close> take
  the entries of a map in the order of their insertion and return them in the order of
  iteration, for the map keyed by element type in \<^verbatim>\<open>writeElements\<close> and for the attribute
  bags of materials and properties.
\<close>

record ('f, 'd) numlib =
  stof :: "string \<Rightarrow> 'f option"
  stod :: "string \<Rightarrow> 'd option"
  fmt_f :: "'f \<Rightarrow> string"
  fmt_d :: "'d \<Rightarrow> string"
  type_order :: "ElementType list \<Rightarrow> ElementType list"
  attr_order :: "(string \<times> 'd) list \<Rightarrow> (string \<times> 'd) list"

text \<open>
  An iteration visits every entry once.  A parameter that does not return the entries it
  was given is no iteration order; the entries are then taken as they were inserted.
\<close>

definition iterated :: "('a list \<Rightarrow> 'a list) \<Rightarrow> 'a list \<Rightarrow> 'a list" where
  "iterated order entries =
     (if length (order entries) = length entries \<and> set (order entries) = set entries
      then order entries else entries)"

type_synonym 'f vec3 = "'f \<times> 'f \<times> 'f"

text \<open>\<^verbatim>\<open>glm::min\<close> and \<^verbatim>\<open>glm::max\<close>, component by component.\<close>

definition fmin :: "'f::ord \<Rightarrow> 'f \<Rightarrow> 'f" where
  "fmin x y = (if y < x then y else x)"

definition fmax :: "'f::ord \<Rightarrow> 'f \<Rightarrow> 'f" where
  "fmax x y = (if x < y then y else x)"

definition vec3_min :: "('f::ord) vec3 \<Rightarrow> 'f vec3 \<Rightarrow> 'f vec3" where
  "vec3_min a b = (case a of (ax, ay, az) \<Rightarrow> case b of (bx, by, bz) \<Rightarrow>
     (fmin ax bx, fmin ay by, fmin az bz))"

definition vec3_max :: "('f::ord) vec3 \<Rightarrow> 'f vec3 \<Rightarrow> 'f vec3" where
  "vec3_max a b = (case a of (ax, ay, az) \<Rightarrow> case b of (bx, by, bz) \<Rightarrow>
     (fmax ax bx, fmax ay by, fmax az bz))"

definition vec3_zero :: "('f::zero) vec3" where
  "vec3_zero = (0, 0, 0)"

section \<open>The entities of \<^verbatim>\<open>RadFileReader.h\<close>\<close>

record 'f Node =
  node_id :: int
  position :: "'f vec3"
  dof_constraints :: "int list"

record Element =
  elem_id :: int
  elem_type :: ElementType
  materialId :: int
  propertyId :: int
  nodeIds :: "int list"

text \<open>
  The attribute bags are \<^verbatim>\<open>std::unordered_map<std::string, double>\<close>, kept here as
  association lists with distinct keys, in the order of insertion.
\<close>

record 'd Material =
  mat_id :: int
  mat_name :: string
  mat_type :: string
  mat_properties :: "(string \<times> 'd) list"

record 'd Property =
  prop_id :: int
  prop_name :: string
  prop_type :: string
  prop_values :: "(string \<times> 'd) list"

record ('f, 'd) LoadCase =
  lc_id :: int
  lc_name :: string
  lc_type :: string
  lc_nodeIds :: "int list"
  lc_vector :: "'f vec3"
  lc_magnitude :: 'd

record BoundaryCondition =
  bc_id :: int
  bc_type :: string
  bc_nodeIds :: "int list"
  bc_dofs :: "int list"

text \<open>\<^verbatim>\<open>m[key] = value\<close> on an attribute bag.\<close>

fun umap_set :: "'k \<Rightarrow> 'v \<Rightarrow> ('k \<times> 'v) list \<Rightarrow> ('k \<times> 'v) list" where
  "umap_set k v [] = [(k, v)]"
| "umap_set k v ((k', v') # kvs) =
     (if k' = k then (k, v) # kvs else (k', v') # umap_set k v kvs)"

section \<open>The state of a \<^verbatim>\<open>RadFileReader\<close>\<close>

record ('f, 'd) RadFileReader =
  nodes :: "'f Node list"
  elements :: "Element list"
  materials :: "'d Material list"
  properties :: "'d Property list"
  loadCases :: "('f, 'd) LoadCase list"
  boundaryConditions :: "BoundaryCondition list"
  title :: string
  version :: string
  filename :: string
  isValid :: bool
  lastError :: string
  nodeIdToIndex :: "int \<rightharpoonup> nat"
  elementIdToIndex :: "int \<rightharpoonup> nat"
  materialIdToIndex :: "int \<rightharpoonup> nat"
  propertyIdToIndex :: "int \<rightharpoonup> nat"

datatype ParseState =
  STATE_HEADER | STATE_TITLE | STATE_NODES | STATE_ELEMENTS | STATE_MATERIALS
| STATE_PROPERTIES | STATE_LOADS | STATE_BOUNDARY_CONDITIONS | STATE_UNKNOWN

definition setError :: "string \<Rightarrow> ('f, 'd) RadFileReader \<Rightarrow> ('f, 'd) RadFileReader" where
  "setError error s = s\<lparr>lastError := error\<rparr>"

definition clearError :: "('f, 'd) RadFileReader \<Rightarrow> ('f, 'd) RadFileReader" where
  "clearError s = s\<lparr>lastError := []\<rparr>"

definition clearLookupTables :: "('f, 'd) RadFileReader \<Rightarrow> ('f, 'd) RadFileReader" where
  "clearLookupTables s =
     s\<lparr>nodeIdToIndex := Map.empty, elementIdToIndex := Map.empty,
       materialIdToIndex := Map.empty, propertyIdToIndex := Map.empty\<rparr>"

text \<open>\<^verbatim>\<open>RadFileReader::clear\<close>.\<close>

definition clear :: "('f, 'd) RadFileReader \<Rightarrow> ('f, 'd) RadFileReader" where
  "clear s =
     clearError (clearLookupTables
       (s\<lparr>nodes := [], elements := [], materials := [], properties := [],
          loadCases := [], boundaryConditions := [],
          title := [], version := [], filename := [], isValid := False\<rparr>))"

text \<open>
  \<^verbatim>\<open>buildLookupTables\<close>: each loop stores position \<open>i\<close> under the identifier of entry
  \<open>i\<close>, so a later entry with the same identifier overwrites an earlier one.
\<close>

fun index_from :: "('a \<Rightarrow> int) \<Rightarrow> 'a list \<Rightarrow> nat \<Rightarrow> (int \<rightharpoonup> nat) \<Rightarrow> (int \<rightharpoonup> nat)" where
  "index_from key [] i m = m"
| "index_from key (x # xs) i m = index_from key xs (Suc i) (m(key x \<mapsto> i))"

definition buildLookupTables :: "('f, 'd) RadFileReader \<Rightarrow> ('f, 'd) RadFileReader" where
  "buildLookupTables s0 =
     (let s = clearLookupTables s0
      in s\<lparr>nodeIdToIndex := index_from node_id (nodes s) 0 (nodeIdToIndex s),
           elementIdToIndex := index_from elem_id (elements s) 0 (elementIdToIndex s),
           materialIdToIndex := index_from mat_id (materials s) 0 (materialIdToIndex s),
           propertyIdToIndex := index_from prop_id (properties s) 0 (propertyIdToIndex s)\<rparr>)"

text \<open>\<^verbatim>\<open>findNode\<close>: the index entry, accepted only when it lies inside the collection.\<close>

definition findNode :: "('f, 'd) RadFileReader \<Rightarrow> int \<Rightarrow> 'f Node option" where
  "findNode s i =
     (case nodeIdToIndex s i of
        None \<Rightarrow> None
      | Some k \<Rightarrow> if k < length (nodes s) then Some (nodes s ! k) else None)"

definition findElement :: "('f, 'd) RadFileReader \<Rightarrow> int \<Rightarrow> Element option" where
  "findElement s i =
     (case elementIdToIndex s i of
        None \<Rightarrow> None
      | Some k \<Rightarrow> if k < length (elements s) then Some (elements s ! k) else None)"

definition findMaterial :: "('f, 'd) RadFileReader \<Rightarrow> int \<Rightarrow> 'd Material option" where
  "findMaterial s i =
     (case materialIdToIndex s i of
        None \<Rightarrow> None
      | Some k \<Rightarrow> if k < length (materials s) then Some (materials s ! k) else None)"

definition findProperty :: "('f, 'd) RadFileReader \<Rightarrow> int \<Rightarrow> 'd Property option" where
  "findProperty s i =
     (case propertyIdToIndex s i of
        None \<Rightarrow> None
      | Some k \<Rightarrow> if k < length (properties s) then Some (properties s ! k) else None)"

text \<open>\<^verbatim>\<open>getBoundingBox\<close>.\<close>

definition getBoundingBox :: "('f::{ord,zero}, 'd) RadFileReader \<Rightarrow> 'f vec3 \<times> 'f vec3" where
  "getBoundingBox s =
     (if nodes s = [] then (vec3_zero, vec3_zero)
      else foldl (\<lambda>(minPos, maxPos) node.
                    (vec3_min minPos (position node), vec3_max maxPos (position node)))
             (position (nodes s ! 0), position (nodes s ! 0)) (nodes s))"

section \<open>Section markers and the per-section parsers\<close>

text \<open>\<^verbatim>\<open>RadFileReader::determineSection\<close>: the keyword table, searched in this order.\<close>

definition determineSection :: "string \<Rightarrow> ParseState" where
  "determineSection line =
     (let upperLine = map toupper line
      in if str_contains upperLine ''/TITLE'' then STATE_TITLE
         else if str_contains upperLine ''/NODE'' then STATE_NODES
         else if str_contains upperLine ''/CNODE'' then STATE_NODES
         else if str_contains upperLine ''/BRICK'' then STATE_ELEMENTS
         else if str_contains upperLine ''/HEXA'' then STATE_ELEMENTS
         else if str_contains upperLine ''/TETRA4'' then STATE_ELEMENTS
         else if str_contains upperLine ''/TETRA10'' then STATE_ELEMENTS
         else if str_contains upperLine ''/SHELL'' then STATE_ELEMENTS
         else if str_contains upperLine ''/SH3N'' then STATE_ELEMENTS
         else if str_contains upperLine ''/QUAD'' then STATE_ELEMENTS
         else if str_contains upperLine ''/TRIA'' then STATE_ELEMENTS
         else if str_contains upperLine ''/MAT'' then STATE_MATERIALS
         else if str_contains upperLine ''/PROP'' then STATE_PROPERTIES
         else if str_contains upperLine ''/PART'' then STATE_PROPERTIES
         else if str_contains upperLine ''/LOAD'' then STATE_LOADS
         else if str_contains upperLine ''/CLOAD'' then STATE_LOADS
         else if str_contains upperLine ''/PLOAD'' then STATE_LOADS
         else if str_contains upperLine ''/BCS'' then STATE_BOUNDARY_CONDITIONS
         else if str_contains upperLine ''/SPC'' then STATE_BOUNDARY_CONDITIONS
         else if str_contains upperLine ''/IMPVEL'' then STATE_BOUNDARY_CONDITIONS
         else STATE_UNKNOWN)"

text \<open>
  Each parser returns \<open>None\<close> where the source returns \<^verbatim>\<open>false\<close> (too few tokens, or
  a conversion that throws); the entity is appended only after every conversion has
  succeeded, so a rejected line leaves the state as it was.
\<close>

definition parseHeader :: "string \<Rightarrow> ('f, 'd) RadFileReader \<Rightarrow> ('f, 'd) RadFileReader option" where
  "parseHeader line s =
     (if str_contains line ''#RADIOSS''
      then (case regex_search_version line of
              Some v \<Rightarrow> Some (s\<lparr>version := v\<rparr>)
            | None \<Rightarrow> Some s)
      else if str_contains line ''/BEGIN'' then Some s
      else Some s)"

definition parseTitle :: "string \<Rightarrow> ('f, 'd) RadFileReader \<Rightarrow> ('f, 'd) RadFileReader option" where
  "parseTitle line s =
     (if title s = [] then Some (s\<lparr>title := trim line\<rparr>)
      else Some (s\<lparr>title := title s @ '' '' @ trim line\<rparr>))"

definition parseNode ::
  "('f, 'd) numlib \<Rightarrow> string \<Rightarrow> ('f, 'd) RadFileReader \<Rightarrow> ('f, 'd) RadFileReader option" where
  "parseNode L line s =
     (let tokens = tokenizeLine line
      in if length tokens < 4 then None
         else do {
           i \<leftarrow> stoi (tokens ! 0);
           x \<leftarrow> stof L (tokens ! 1);
           y \<leftarrow> stof L (tokens ! 2);
           z \<leftarrow> stof L (tokens ! 3);
           Some (s\<lparr>nodes := nodes s @
                   [\<lparr>node_id = i, position = (x, y, z), dof_constraints = []\<rparr>]\<rparr>)
         })"

text \<open>The \<^verbatim>\<open>switch (nodeCount)\<close> of \<^verbatim>\<open>parseElement\<close>.\<close>

definition typeOfNodeCount :: "nat \<Rightarrow> ElementType" where
  "typeOfNodeCount nodeCount =
     (if nodeCount = 3 then TRIA3
      else if nodeCount = 4 then QUAD4
      else if nodeCount = 5 then PYRAM5
      else if nodeCount = 6 then PENTA6
      else if nodeCount = 8 then HEXA8
      else UNKNOWN)"

definition parseElement :: "string \<Rightarrow> ('f, 'd) RadFileReader \<Rightarrow> ('f, 'd) RadFileReader option" where
  "parseElement line s =
     (let tokens = tokenizeLine line
      in if length tokens < 3 then None
         else do {
           i \<leftarrow> stoi (tokens ! 0);
           element \<leftarrow>
             (let nodeCount = length tokens - 3
              in if nodeCount \<ge> 2
                 then do {
                   m \<leftarrow> stoi (tokens ! 1);
                   p \<leftarrow> stoi (tokens ! 2);
                   ns \<leftarrow> those (map stoi (drop 3 tokens));
                   Some \<lparr>elem_id = i, elem_type = typeOfNodeCount nodeCount,
                         materialId = m, propertyId = p, nodeIds = ns\<rparr>
                 }
                 else Some \<lparr>elem_id = i, elem_type = UNKNOWN,
                            materialId = 0, propertyId = 0, nodeIds = []\<rparr>);
           Some (s\<lparr>elements := elements s @ [element]\<rparr>)
         })"

text \<open>
  The loop \<^verbatim>\<open>for (i = 2; i < tokens.size(); i += 2) if (i + 1 < tokens.size()) ...\<close> of
  \<^verbatim>\<open>parseMaterial\<close> and \<^verbatim>\<open>parseProperty\<close>, on the tokens from position 2 on.
\<close>

fun parsePairs ::
  "('f, 'd) numlib \<Rightarrow> string list \<Rightarrow> (string \<times> 'd) list \<Rightarrow> (string \<times> 'd) list option" where
  "parsePairs L (propName # v # rest) acc =
     (case stod L v of
        None \<Rightarrow> None
      | Some propValue \<Rightarrow> parsePairs L rest (umap_set propName propValue acc))"
| "parsePairs L [t] acc = Some acc"
| "parsePairs L [] acc = Some acc"

definition parseMaterial ::
  "('f, 'd) numlib \<Rightarrow> string \<Rightarrow> ('f, 'd) RadFileReader \<Rightarrow> ('f, 'd) RadFileReader option" where
  "parseMaterial L line s =
     (let tokens = tokenizeLine line
      in if length tokens < 2 then None
         else do {
           i \<leftarrow> stoi (tokens ! 0);
           ps \<leftarrow> parsePairs L (drop 2 tokens) [];
           Some (s\<lparr>materials := materials s @
                   [\<lparr>mat_id = i, mat_name = [],
                     mat_type = (if length tokens > 1 then tokens ! 1 else []),
                     mat_properties = ps\<rparr>]\<rparr>)
         })"

definition parseProperty ::
  "('f, 'd) numlib \<Rightarrow> string \<Rightarrow> ('f, 'd) RadFileReader \<Rightarrow> ('f, 'd) RadFileReader option" where
  "parseProperty L line s =
     (let tokens = tokenizeLine line
      in if length tokens < 2 then None
         else do {
           i \<leftarrow> stoi (tokens ! 0);
           ps \<leftarrow> parsePairs L (drop 2 tokens) [];
           Some (s\<lparr>properties := properties s @
                   [\<lparr>prop_id = i, prop_name = [],
                     prop_type = (if length tokens > 1 then tokens ! 1 else []),
                     prop_values = ps\<rparr>]\<rparr>)
         })"

definition parseLoadCase ::
  "('f::zero, 'd) numlib \<Rightarrow> string \<Rightarrow> ('f, 'd) RadFileReader \<Rightarrow> ('f, 'd) RadFileReader option" where
  "parseLoadCase L line s =
     (let tokens = tokenizeLine line
      in if length tokens < 5 then None
         else do {
           i \<leftarrow> stoi (tokens ! 0);
           magnitude \<leftarrow> stod L (tokens ! 2);
           vx \<leftarrow> stof L (tokens ! 3);
           vy \<leftarrow> stof L (tokens ! 4);
           vz \<leftarrow> (if length tokens > 5 then stof L (tokens ! 5) else Some 0);
           ns \<leftarrow> those (map stoi (drop 6 tokens));
           Some (s\<lparr>loadCases := loadCases s @
                   [\<lparr>lc_id = i, lc_name = [], lc_type = tokens ! 1, lc_nodeIds = ns,
                     lc_vector = (vx, vy, vz), lc_magnitude = magnitude\<rparr>]\<rparr>)
         })"

text \<open>
  The token loop of \<^verbatim>\<open>parseBoundaryCondition\<close>, from token 2 on.  The test is
  \<^verbatim>\<open>tokens[i].find_first_of("123456") != npos\<close>: the token contains one of the six digits.
\<close>

definition find_first_of_123456 :: "string \<Rightarrow> bool" where
  "find_first_of_123456 token = list_ex (\<lambda>c. c \<in> set ''123456'') token"

definition dofDigits :: "string \<Rightarrow> int list" where
  "dofDigits token =
     map digit_value (filter (\<lambda>c. CHR ''1'' \<le> c \<and> c \<le> CHR ''6'') token)"

fun parseDofTokens :: "string list \<Rightarrow> int list \<Rightarrow> int list \<Rightarrow> (int list \<times> int list) option" where
  "parseDofTokens [] dofs nids = Some (dofs, nids)"
| "parseDofTokens (token # rest) dofs nids =
     (if find_first_of_123456 token
      then parseDofTokens rest (dofs @ dofDigits token) nids
      else (case stoi token of
              None \<Rightarrow> None
            | Some n \<Rightarrow> parseDofTokens rest dofs (nids @ [n])))"

definition parseBoundaryCondition ::
  "string \<Rightarrow> ('f, 'd) RadFileReader \<Rightarrow> ('f, 'd) RadFileReader option" where
  "parseBoundaryCondition line s =
     (let tokens = tokenizeLine line
      in if length tokens < 3 then None
         else do {
           i \<leftarrow> stoi (tokens ! 0);
           r \<leftarrow> parseDofTokens (drop 2 tokens) [] [];
           Some (s\<lparr>boundaryConditions := boundaryConditions s @
                   [\<lparr>bc_id = i, bc_type = tokens ! 1, bc_nodeIds = snd r, bc_dofs = fst r\<rparr>]\<rparr>)
         })"

section \<open>\<^verbatim>\<open>parseFile\<close>\<close>

text \<open>The \<^verbatim>\<open>switch (currentState)\<close> of \<^verbatim>\<open>parseFile\<close>.\<close>

definition parseContent ::
  "('f::zero, 'd) numlib \<Rightarrow> ParseState \<Rightarrow> string \<Rightarrow> ('f, 'd) RadFileReader
     \<Rightarrow> ('f, 'd) RadFileReader option" where
  "parseContent L currentState line s =
     (case currentState of
        STATE_HEADER \<Rightarrow> parseHeader line s
      | STATE_TITLE \<Rightarrow> parseTitle line s
      | STATE_NODES \<Rightarrow> parseNode L line s
      | STATE_ELEMENTS \<Rightarrow> parseElement line s
      | STATE_MATERIALS \<Rightarrow> parseMaterial L line s
      | STATE_PROPERTIES \<Rightarrow> parseProperty L line s
      | STATE_LOADS \<Rightarrow> parseLoadCase L line s
      | STATE_BOUNDARY_CONDITIONS \<Rightarrow> parseBoundaryCondition line s
      | STATE_UNKNOWN \<Rightarrow> Some s)"

text \<open>
  The \<^verbatim>\<open>while (std::getline(file, line))\<close> loop, on the lines still to read, with the
  loop variables \<^verbatim>\<open>lineNumber\<close> and \<^verbatim>\<open>currentState\<close>.  The result is the returned flag
  and the state of the reader.
\<close>

fun parseLines ::
  "('f::zero, 'd) numlib \<Rightarrow> string list \<Rightarrow> nat \<Rightarrow> ParseState \<Rightarrow> ('f, 'd) RadFileReader
     \<Rightarrow> bool \<times> ('f, 'd) RadFileReader" where
  "parseLines L [] lineNumber currentState s = (True, s)"
| "parseLines L (line # rest) lineNumber currentState s =
     (if isEmpty line \<or> isComment line then parseLines L rest (lineNumber + 1) currentState s
      else if determineSection line \<noteq> STATE_UNKNOWN
      then parseLines L rest (lineNumber + 1) (determineSection line) s
      else (case parseContent L currentState line s of
              None \<Rightarrow>
                (False, setError (''Parse error at line '' @ to_string (int (lineNumber + 1))
                                   @ '': '' @ line) s)
            | Some s' \<Rightarrow> parseLines L rest (lineNumber + 1) currentState s'))"

definition parseFile ::
  "('f::zero, 'd) numlib \<Rightarrow> string \<Rightarrow> ('f, 'd) RadFileReader \<Rightarrow> bool \<times> ('f, 'd) RadFileReader" where
  "parseFile L file s = parseLines L (getlines LF file) 0 STATE_HEADER s"

section \<open>Validation\<close>

text \<open>\<^verbatim>\<open>RadFileUtils::getElementNodeCount\<close>.\<close>

definition getElementNodeCount :: "ElementType \<Rightarrow> int" where
  "getElementNodeCount t =
     (case t of
        TRIA3 \<Rightarrow> 3 | QUAD4 \<Rightarrow> 4 | TETRA4 \<Rightarrow> 4 | PYRAM5 \<Rightarrow> 5 | PENTA6 \<Rightarrow> 6 | HEXA8 \<Rightarrow> 8
      | UNKNOWN \<Rightarrow> 0)"

text \<open>\<^verbatim>\<open>static_cast<int>\<close> of a \<^verbatim>\<open>size_t\<close>: the low 32 bits, read as a signed number.\<close>

definition static_cast_int :: "nat \<Rightarrow> int" where
  "static_cast_int n =
     (let m = int n mod 2 ^ 32 in if m \<ge> 2 ^ 31 then m - 2 ^ 32 else m)"

text \<open>The loops of \<^verbatim>\<open>validateNodes\<close> and \<^verbatim>\<open>validateElements\<close>, with the set of identifiers seen.\<close>

fun validateNodesLoop :: "'f Node list \<Rightarrow> int set \<Rightarrow> bool" where
  "validateNodesLoop [] nodeIdSet = True"
| "validateNodesLoop (node # rest) nodeIdSet =
     (if node_id node \<in> nodeIdSet then False
      else validateNodesLoop rest (insert (node_id node) nodeIdSet))"

definition validateNodes :: "('f, 'd) RadFileReader \<Rightarrow> bool" where
  "validateNodes s = validateNodesLoop (nodes s) {}"

fun validateElementsLoop :: "Element list \<Rightarrow> int set \<Rightarrow> bool" where
  "validateElementsLoop [] elementIds = True"
| "validateElementsLoop (element # rest) elementIds =
     (if elem_id element \<in> elementIds then False
      else let expectedNodes = getElementNodeCount (elem_type element)
           in if expectedNodes > 0 \<and> static_cast_int (length (nodeIds element)) \<noteq> expectedNodes
              then False
              else validateElementsLoop rest (insert (elem_id element) elementIds))"

definition validateElements :: "('f, 'd) RadFileReader \<Rightarrow> bool" where
  "validateElements s = validateElementsLoop (elements s) {}"

definition validateReferences :: "('f, 'd) RadFileReader \<Rightarrow> bool" where
  "validateReferences s =
     list_all (\<lambda>element. list_all (\<lambda>nodeId. findNode s nodeId \<noteq> None) (nodeIds element))
       (elements s)"

definition validateData :: "('f, 'd) RadFileReader \<Rightarrow> bool" where
  "validateData s = (validateNodes s \<and> validateElements s \<and> validateReferences s)"

section \<open>\<^verbatim>\<open>loadFile\<close>\<close>

text \<open>
  The file system is the parameter \<open>fs\<close>: the bytes of the named file, \<open>None\<close> when
  \<^verbatim>\<open>std::ifstream\<close> cannot open it.  The result is the returned flag and the reader.
\<close>

definition loadFile ::
  "('f::zero, 'd) numlib \<Rightarrow> (string \<Rightarrow> string option) \<Rightarrow> string \<Rightarrow> ('f, 'd) RadFileReader
     \<Rightarrow> bool \<times> ('f, 'd) RadFileReader" where
  "loadFile L fs name s0 =
     (let s = (clear s0)\<lparr>filename := name\<rparr>
      in case fs name of
           None \<Rightarrow> (False, setError (''Cannot open file: '' @ name) s)
         | Some file \<Rightarrow>
             (case parseFile L file s of (success, s1) \<Rightarrow>
                if success
                then let s2 = buildLookupTables s1;
                         s3 = s2\<lparr>isValid := validateData s2\<rparr>;
                         s4 = (if \<not> isValid s3 then setError ''File validation failed'' s3 else s3)
                     in (success \<and> isValid s4, s4)
                else (success \<and> isValid s1, s1)))"

text \<open>The reader as its constructor leaves it.\<close>

definition newReader :: "('f, 'd) RadFileReader" where
  "newReader =
     \<lparr>nodes = [], elements = [], materials = [], properties = [], loadCases = [],
      boundaryConditions = [], title = [], version = [], filename = [], isValid = False,
      lastError = [], nodeIdToIndex = Map.empty, elementIdToIndex = Map.empty,
      materialIdToIndex = Map.empty, propertyIdToIndex = Map.empty\<rparr>"

section \<open>\<^verbatim>\<open>saveFile\<close>\<close>

text \<open>
  Each \<^verbatim>\<open>write...\<close> function is modelled by the text it sends to the stream.  Writes to
  an open stream are taken to succeed, so \<^verbatim>\<open>file.good()\<close> stays true.
\<close>

definition writeHeader :: "('f, 'd) RadFileReader \<Rightarrow> string" where
  "writeHeader s =
     ''#RADIOSS STARTER'' @ [LF] @ ''/BEGIN'' @ [LF] @
     (if title s \<noteq> [] then ''/TITLE'' @ [LF] @ title s @ [LF] else [])"

definition writeNodes :: "('f, 'd) numlib \<Rightarrow> ('f, 'd) RadFileReader \<Rightarrow> string" where
  "writeNodes L s =
     (if nodes s \<noteq> []
      then ''/NODE'' @ [LF] @
           concat (map (\<lambda>node. case position node of (x, y, z) \<Rightarrow>
                          setw 10 (to_string (node_id node)) @ setw 20 (fmt_f L x) @
                          setw 20 (fmt_f L y) @ setw 20 (fmt_f L z) @ [LF])
                     (nodes s))
      else [])"

definition elementHeader :: "ElementType \<Rightarrow> string" where
  "elementHeader t =
     (case t of
        TRIA3 \<Rightarrow> ''/SH3N'' | QUAD4 \<Rightarrow> ''/SHELL'' | TETRA4 \<Rightarrow> ''/TETRA4'' | HEXA8 \<Rightarrow> ''/BRICK''
      | PENTA6 \<Rightarrow> ''/PENTA6'' | PYRAM5 \<Rightarrow> ''/PYRAM5'' | UNKNOWN \<Rightarrow> ''/SHELL'') @ [LF]"

definition writeElementLine :: "Element \<Rightarrow> string" where
  "writeElementLine element =
     setw 10 (to_string (elem_id element)) @ setw 10 (to_string (materialId element)) @
     setw 10 (to_string (propertyId element)) @
     concat (map (\<lambda>nodeId. setw 10 (to_string nodeId)) (nodeIds element)) @ [LF]"

text \<open>
  \<^verbatim>\<open>writeElements\<close> groups the elements in a \<^verbatim>\<open>std::unordered_map\<close> keyed by type and
  iterates over it.  \<open>typesInserted\<close> lists the keys as the first loop inserts them, each
  type at its first occurrence.
\<close>

definition typesInserted :: "Element list \<Rightarrow> ElementType list" where
  "typesInserted es = rev (remdups (rev (map elem_type es)))"

definition writeElements :: "('f, 'd) numlib \<Rightarrow> ('f, 'd) RadFileReader \<Rightarrow> string" where
  "writeElements L s =
     concat (map (\<lambda>t. elementHeader t @
                       concat (map writeElementLine
                                 (filter (\<lambda>element. elem_type element = t) (elements s))))
               (iterated (type_order L) (typesInserted (elements s))))"

definition writeMaterials :: "('f, 'd) numlib \<Rightarrow> ('f, 'd) RadFileReader \<Rightarrow> string" where
  "writeMaterials L s =
     concat (map (\<lambda>material.
                    ''/MAT/'' @ mat_type material @ [LF] @
                    setw 10 (to_string (mat_id material)) @
                    concat (map (\<lambda>prop. setw 20 (fmt_d L (snd prop)))
                              (iterated (attr_order L) (mat_properties material))) @
                    [LF])
               (materials s))"

definition writeProperties :: "('f, 'd) numlib \<Rightarrow> ('f, 'd) RadFileReader \<Rightarrow> string" where
  "writeProperties L s =
     concat (map (\<lambda>property.
                    ''/PROP/'' @ prop_type property @ [LF] @
                    setw 10 (to_string (prop_id property)) @
                    concat (map (\<lambda>val. setw 20 (fmt_d L (snd val)))
                              (iterated (attr_order L) (prop_values property))) @
                    [LF])
               (properties s))"

definition writeLoadCases :: "('f, 'd) numlib \<Rightarrow> ('f, 'd) RadFileReader \<Rightarrow> string" where
  "writeLoadCases L s =
     concat (map (\<lambda>loadCase. case lc_vector loadCase of (x, y, z) \<Rightarrow>
                    ''/CLOAD'' @ [LF] @
                    setw 10 (to_string (lc_id loadCase)) @
                    setw 20 (fmt_d L (lc_magnitude loadCase)) @
                    setw 20 (fmt_f L x) @ setw 20 (fmt_f L y) @ setw 20 (fmt_f L z) @
                    concat (map (\<lambda>nodeId. setw 10 (to_string nodeId)) (lc_nodeIds loadCase)) @
                    [LF])
               (loadCases s))"

definition writeBoundaryConditions :: "('f, 'd) RadFileReader \<Rightarrow> string" where
  "writeBoundaryConditions s =
     concat (map (\<lambda>bc.
                    ''/BCS'' @ [LF] @
                    setw 10 (to_string (bc_id bc)) @
                    concat (map to_string (bc_dofs bc)) @
                    setw 10 [] @
                    concat (map (\<lambda>nodeId. setw 10 (to_string nodeId)) (bc_nodeIds bc)) @
                    [LF])
               (boundaryConditions s))"

text \<open>
  \<^verbatim>\<open>saveFile\<close>: \<open>None\<close> where it returns \<^verbatim>\<open>false\<close> (reader not valid, or the output
  file cannot be opened, the parameter \<open>opened\<close>), else the bytes written.
\<close>

definition saveFile :: "('f, 'd) numlib \<Rightarrow> bool \<Rightarrow> ('f, 'd) RadFileReader \<Rightarrow> string option" where
  "saveFile L opened s =
     (if \<not> isValid s then None
      else if \<not> opened then None
      else Some (writeHeader s @ writeNodes L s @ writeElements L s @ writeMaterials L s @
                 writeProperties L s @ writeLoadCases L s @ writeBoundaryConditions s))"

section \<open>A library instance for whole numbers\<close>

text \<open>
  A closed statement about the reader needs a value for the library parameter.
  \<open>whole_lib\<close> reads and prints the decimal integers of at most seven digits, which
  \<^verbatim>\<open>float\<close> and \<^verbatim>\<open>double\<close> hold exactly, the way \<^verbatim>\<open>std::stof\<close> and the \<^verbatim>\<open>%.6e\<close> format
  do, and iterates maps in the order of insertion.  It covers nothing else: a literal with
  a fraction or an exponent is refused although \<^verbatim>\<open>std::stof\<close> reads it, and a negative zero
  is not told from zero.  It is used below only where no conversion is called.
\<close>

definition whole_literal :: "string \<Rightarrow> int option" where
  "whole_literal str =
     (let r = dropWhile isspace str;
          r1 = (if r \<noteq> [] \<and> (hd r = CHR ''-'' \<or> hd r = CHR ''+'') then tl r else r)
      in if r1 = [] \<or> \<not> list_all isdigit r1 \<or> length r1 > 7 then None else stoi str)"

definition whole_sci :: "int \<Rightarrow> string" where
  "whole_sci v =
     (let ds = digits (nat \<bar>v\<bar>)
      in (if v < 0 then ''-'' else []) @ [hd ds] @ ''.'' @ take 6 (tl ds @ ''000000'') @
         ''e+0'' @ digits (length ds - 1))"

definition whole_lib :: "(int, int) numlib" where
  "whole_lib =
     \<lparr>stof = whole_literal, stod = whole_literal, fmt_f = whole_sci, fmt_d = whole_sci,
      type_order = (\<lambda>types. types), attr_order = (\<lambda>attrs. attrs)\<rparr>"

section \<open>The model store of \<^verbatim>\<open>core/Model.h\<close>\<close>

text \<open>The entities of \<^verbatim>\<open>core/Node.h\<close>, \<^verbatim>\<open>core/Element.h\<close> and \<^verbatim>\<open>core/Material.h\<close>.\<close>

record 'f CoreNode =
  cn_id :: int
  cn_position :: "'f vec3"
  displacement :: "'f vec3"
  velocity :: "'f vec3"
  acceleration :: "'f vec3"
  fixedX :: bool
  fixedY :: bool
  fixedZ :: bool

datatype CoreElementType =
  ET_UNKNOWN | ET_SHELL3 | ET_SHELL4 | ET_TETRA4 | ET_HEXA8 | ET_BEAM2 | ET_SPRING1

record 'f CoreElement =
  ce_id :: int
  ce_type :: CoreElementType
  ce_nodeIds :: "int list"
  ce_materialId :: int
  ce_propertyId :: int
  thickness :: 'f

datatype MaterialType = ELASTIC | PLASTIC | JOHNSON_COOK | COMPOSITE | HYPERELASTIC

record 'f CoreMaterial =
  cm_id :: int
  cm_name :: string
  cm_type :: MaterialType
  density :: 'f
  youngModulus :: 'f
  poissonRatio :: 'f
  yieldStress :: 'f
  tangentModulus :: 'f
  jc_A :: 'f
  jc_B :: 'f
  jc_n :: 'f
  jc_C :: 'f
  jc_m :: 'f
  jc_D1 :: 'f
  jc_D2 :: 'f
  jc_D3 :: 'f
  jc_D4 :: 'f
  jc_D5 :: 'f

record 'f Model =
  m_Nodes :: "'f CoreNode list"
  m_Elements :: "'f CoreElement list"
  m_Materials :: "'f CoreMaterial list"
  m_NodeIdToIndex :: "int \<rightharpoonup> nat"
  m_ElementIdToIndex :: "int \<rightharpoonup> nat"
  m_MaterialIdToIndex :: "int \<rightharpoonup> nat"
  m_MinBounds :: "'f vec3"
  m_MaxBounds :: "'f vec3"

text \<open>
  \<^verbatim>\<open>vector::erase(begin() + index)\<close> and \<^verbatim>\<open>operator[]\<close> are undefined outside the
  vector; the model reports that as an error value.
\<close>

datatype model_error = OutOfRange

text \<open>The constructor \<^verbatim>\<open>Model::Model\<close>.\<close>

definition newModel :: "('f::zero) Model" where
  "newModel =
     \<lparr>m_Nodes = [], m_Elements = [], m_Materials = [],
      m_NodeIdToIndex = Map.empty, m_ElementIdToIndex = Map.empty,
      m_MaterialIdToIndex = Map.empty, m_MinBounds = vec3_zero, m_MaxBounds = vec3_zero\<rparr>"

definition AddNode :: "'f CoreNode \<Rightarrow> 'f Model \<Rightarrow> 'f Model" where
  "AddNode node m =
     m\<lparr>m_NodeIdToIndex := (m_NodeIdToIndex m)(cn_id node \<mapsto> length (m_Nodes m)),
       m_Nodes := m_Nodes m @ [node]\<rparr>"

text \<open>\<^verbatim>\<open>v.erase(v.begin() + index)\<close> inside the vector.\<close>

definition erase_at :: "nat \<Rightarrow> 'a list \<Rightarrow> 'a list" where
  "erase_at index xs = take index xs @ drop (Suc index) xs"

text \<open>
  The loop \<^verbatim>\<open>for (auto& pair : map) if (pair.second > index) pair.second--;\<close> that
  follows the removal of the key.
\<close>

definition erase_key_and_shift :: "int \<Rightarrow> nat \<Rightarrow> (int \<rightharpoonup> nat) \<Rightarrow> (int \<rightharpoonup> nat)" where
  "erase_key_and_shift key index idx =
     (\<lambda>k. if k = key then None
          else map_option (\<lambda>second. if second > index then second - 1 else second) (idx k))"

definition RemoveNode :: "int \<Rightarrow> 'f Model \<Rightarrow> model_error + 'f Model" where
  "RemoveNode nodeId m =
     (case m_NodeIdToIndex m nodeId of
        None \<Rightarrow> Inr m
      | Some index \<Rightarrow>
          if index < length (m_Nodes m)
          then Inr (m\<lparr>m_Nodes := erase_at index (m_Nodes m),
                      m_NodeIdToIndex := erase_key_and_shift nodeId index (m_NodeIdToIndex m)\<rparr>)
          else Inl OutOfRange)"

definition GetNode :: "'f Model \<Rightarrow> int \<Rightarrow> model_error + 'f CoreNode option" where
  "GetNode m nodeId =
     (case m_NodeIdToIndex m nodeId of
        None \<Rightarrow> Inr None
      | Some index \<Rightarrow>
          if index < length (m_Nodes m) then Inr (Some (m_Nodes m ! index)) else Inl OutOfRange)"

definition AddElement :: "'f CoreElement \<Rightarrow> 'f Model \<Rightarrow> 'f Model" where
  "AddElement element m =
     m\<lparr>m_ElementIdToIndex := (m_ElementIdToIndex m)(ce_id element \<mapsto> length (m_Elements m)),
       m_Elements := m_Elements m @ [element]\<rparr>"

definition RemoveElement :: "int \<Rightarrow> 'f Model \<Rightarrow> model_error + 'f Model" where
  "RemoveElement elementId m =
     (case m_ElementIdToIndex m elementId of
        None \<Rightarrow> Inr m
      | Some index \<Rightarrow>
          if index < length (m_Elements m)
          then Inr (m\<lparr>m_Elements := erase_at index (m_Elements m),
                      m_ElementIdToIndex :=
                        erase_key_and_shift elementId index (m_ElementIdToIndex m)\<rparr>)
          else Inl OutOfRange)"

definition GetElement :: "'f Model \<Rightarrow> int \<Rightarrow> model_error + 'f CoreElement option" where
  "GetElement m elementId =
     (case m_ElementIdToIndex m elementId of
        None \<Rightarrow> Inr None
      | Some index \<Rightarrow>
          if index < length (m_Elements m) then Inr (Some (m_Elements m ! index))
          else Inl OutOfRange)"

definition AddMaterial :: "'f CoreMaterial \<Rightarrow> 'f Model \<Rightarrow> 'f Model" where
  "AddMaterial material m =
     m\<lparr>m_MaterialIdToIndex := (m_MaterialIdToIndex m)(cm_id material \<mapsto> length (m_Materials m)),
       m_Materials := m_Materials m @ [material]\<rparr>"

definition GetMaterial :: "'f Model \<Rightarrow> int \<Rightarrow> model_error + 'f CoreMaterial option" where
  "GetMaterial m matId =
     (case m_MaterialIdToIndex m matId of
        None \<Rightarrow> Inr None
      | Some index \<Rightarrow>
          if index < length (m_Materials m) then Inr (Some (m_Materials m ! index))
          else Inl OutOfRange)"

definition Clear :: "('f::zero) Model \<Rightarrow> 'f Model" where
  "Clear m =
     m\<lparr>m_Nodes := [], m_Elements := [], m_Materials := [],
       m_NodeIdToIndex := Map.empty, m_ElementIdToIndex := Map.empty,
       m_MaterialIdToIndex := Map.empty, m_MinBounds := vec3_zero, m_MaxBounds := vec3_zero\<rparr>"

text \<open>The mutating operations as data, and a sequence of them run from left to right.\<close>

datatype 'f model_op =
  OpAddNode "'f CoreNode" | OpRemoveNode int
| OpAddElement "'f CoreElement" | OpRemoveElement int
| OpAddMaterial "'f CoreMaterial" | OpClear

fun apply_op :: "('f::zero) model_op \<Rightarrow> 'f Model \<Rightarrow> model_error + 'f Model" where
  "apply_op (OpAddNode node) m = Inr (AddNode node m)"
| "apply_op (OpRemoveNode nodeId) m = RemoveNode nodeId m"
| "apply_op (OpAddElement element) m = Inr (AddElement element m)"
| "apply_op (OpRemoveElement elementId) m = RemoveElement elementId m"
| "apply_op (OpAddMaterial material) m = Inr (AddMaterial material m)"
| "apply_op OpClear m = Inr (Clear m)"

fun run_ops :: "('f::zero) model_op list \<Rightarrow> 'f Model \<Rightarrow> model_error + 'f Model" where
  "run_ops [] m = Inr m"
| "run_ops (op # ops) m =
     (case apply_op op m of Inl e \<Rightarrow> Inl e | Inr m' \<Rightarrow> run_ops ops m')"

section \<open>Example decks\<close>

text \<open>An element section closed by the marker \<^verbatim>\<open>/END\<close>, which is not in the keyword table.\<close>

definition deck_unknown_marker :: string where
  "deck_unknown_marker =
     ''/SHELL'' @ [LF] @ ''1 1 1 1 2 3'' @ [LF] @ ''/END'' @ [LF] @ ''2 1 1 4 5 6'' @ [LF]"

text \<open>A deck with one material and no attribute, and the text \<^verbatim>\<open>saveFile\<close> writes for it.\<close>

definition deck_material :: string where
  "deck_material = ''/MAT'' @ [LF] @ ''1 LAW1'' @ [LF]"

definition material_1 :: "'d Material" where
  "material_1 = \<lparr>mat_id = 1, mat_name = [], mat_type = ''LAW1'', mat_properties = []\<rparr>"

definition deck_material_saved :: string where
  "deck_material_saved =
     ''#RADIOSS STARTER'' @ [LF] @ ''/BEGIN'' @ [LF] @ ''/MAT/LAW1'' @ [LF] @
     ''         1'' @ [LF]"

section \<open>Consistency of an identifier index\<close>

text \<open>
  An index is consistent with its collection when every entry points inside the
  collection, at an entity that carries the identifier of the entry.
\<close>

definition index_consistent :: "('a \<Rightarrow> int) \<Rightarrow> 'a list \<Rightarrow> (int \<rightharpoonup> nat) \<Rightarrow> bool" where
  "index_consistent key xs idx = (\<forall>k i. idx k = Some i \<longrightarrow> i < length xs \<and> key (xs ! i) = k)"

definition model_inv :: "'f Model \<Rightarrow> bool" where
  "model_inv m =
     (index_consistent cn_id (m_Nodes m) (m_NodeIdToIndex m) \<and>
      index_consistent ce_id (m_Elements m) (m_ElementIdToIndex m) \<and>
      index_consistent cm_id (m_Materials m) (m_MaterialIdToIndex m))"

text \<open>The constructor \<^verbatim>\<open>Node(int nodeId, const glm::vec3& pos)\<close> of \<^verbatim>\<open>core/Node.h\<close>.\<close>

definition CoreNode_ctor :: "int \<Rightarrow> 'f vec3 \<Rightarrow> ('f::zero) CoreNode" where
  "CoreNode_ctor nodeId pos =
     \<lparr>cn_id = nodeId, cn_position = pos, displacement = vec3_zero, velocity = vec3_zero,
      acceleration = vec3_zero, fixedX = False, fixedY = False, fixedZ = False\<rparr>"

text \<open>Two nodes added, then the first removed.\<close>

definition ops_add_add_remove :: "int model_op list" where
  "ops_add_add_remove =
     [OpAddNode (CoreNode_ctor 1 (0, 0, 0)), OpAddNode (CoreNode_ctor 2 (1, 0, 0)), OpRemoveNode 1]"

text \<open>
  The tokens of a line in the sense of the specification: the maximal runs of characters
  that are not white space.
\<close>

fun whitespaceRuns :: "string \<Rightarrow> string \<Rightarrow> string list" where
  "whitespaceRuns run [] = (if run = [] then [] else [run])"
| "whitespaceRuns run (c # cs) =
     (if isspace c
      then (if run = [] then whitespaceRuns [] cs else run # whitespaceRuns [] cs)
      else whitespaceRuns (run @ [c]) cs)"

definition whitespaceTokens :: "string \<Rightarrow> string list" where
  "whitespaceTokens line = whitespaceRuns [] line"

text \<open>An element record whose fourth and fifth fields are separated by a tab.\<close>

definition token_10_tab_20 :: string where
  "token_10_tab_20 = ''10'' @ [TAB] @ ''20''"

definition line_tab_separated :: string where
  "line_tab_separated = ''7 1 2 '' @ token_10_tab_20 @ '' 30 40''"

section \<open>Auxiliary notions for the line loop\<close>

text \<open>
  A data line is one that \<^verbatim>\<open>parseFile\<close> neither skips nor takes for a section marker.
  \<open>stateAfter\<close> is the value of \<^verbatim>\<open>currentState\<close> once the given lines have been read.
\<close>

definition isDataLine :: "string \<Rightarrow> bool" where
  "isDataLine line = (\<not> isEmpty line \<and> \<not> isComment line \<and> determineSection line = STATE_UNKNOWN)"

fun stateAfter :: "string list \<Rightarrow> ParseState \<Rightarrow> ParseState" where
  "stateAfter [] currentState = currentState"
| "stateAfter (line # rest) currentState =
     stateAfter rest
       (if \<not> (isEmpty line \<or> isComment line) \<and> determineSection line \<noteq> STATE_UNKNOWN
        then determineSection line else currentState)"

text \<open>
  An element section, then a node section whose first record has three tokens only.
\<close>

definition deck_short_node_record :: string where
  "deck_short_node_record =
     ''/SHELL'' @ [LF] @ ''1 1 1 1 2 3'' @ [LF] @ ''/NODE'' @ [LF] @ ''5 1.0 2.0'' @ [LF] @
     ''2 1 0 0'' @ [LF]"

text \<open>
  \<^verbatim>\<open>RadFileReader::IsCommentLine\<close> of the reader that fills the model store
  (\<^verbatim>\<open>io/RadFileReader.cpp\<close> beside \<^verbatim>\<open>core/Model.h\<close>); its \<^verbatim>\<open>Trim\<close> is \<^verbatim>\<open>trim\<close> above.
\<close>

definition IsCommentLine :: "string \<Rightarrow> bool" where
  "IsCommentLine line =
     (let trimmed = trim line
      in trimmed = [] \<or> hd trimmed = CHR ''#'' \<or> hd trimmed = CHR ''$'' \<or>
         substr trimmed 0 2 = ''//'')"

text \<open>A node section with a line that starts with a dollar sign.\<close>

definition deck_dollar_comment :: string where
  "deck_dollar_comment = ''/NODE'' @ [LF] @ ''$ comment'' @ [LF] @ ''1 0 0 0'' @ [LF]"



section \<open>Facts about trimming\<close>

lemma find_first_not_of_None: "find_first_not_of s = None \<longleftrightarrow> (\<forall>c \<in> set s. trim_ws c)"
  by (induction s) auto

lemma find_first_not_of_Some:
  "find_first_not_of s = Some k \<Longrightarrow> k = length (takeWhile trim_ws s) \<and> k < length s"
  by (induction s arbitrary: k) (auto split: if_splits)

lemma find_last_not_of_Some:
  assumes "find_last_not_of s = Some e"
  shows "e + 1 = length s - length (takeWhile trim_ws (rev s))" and "e < length s"
proof -
  from assms obtain k where k: "find_first_not_of (rev s) = Some k" and e: "e = length s - 1 - k"
    by (auto simp: find_last_not_of_def)
  from find_first_not_of_Some [OF k]
  have "k = length (takeWhile trim_ws (rev s))" and "k < length s" by simp_all
  with e show "e + 1 = length s - length (takeWhile trim_ws (rev s))" and "e < length s"
    by simp_all
qed

lemma trim_empty_iff: "trim s = [] \<longleftrightarrow> (\<forall>c \<in> set s. trim_ws c)"
proof (cases "find_first_not_of s")
  case None
  then have "trim s = []" by (simp add: trim_def)
  moreover from None have "\<forall>c \<in> set s. trim_ws c"
    by (simp only: find_first_not_of_None)
  ultimately show ?thesis by simp
next
  case (Some start)
  then have ns: "\<not> (\<forall>c \<in> set s. trim_ws c)"
    using find_first_not_of_None [of s] by simp
  then have "\<not> (\<forall>c \<in> set (rev s). trim_ws c)" by simp
  then obtain k where k: "find_first_not_of (rev s) = Some k"
    using find_first_not_of_None [of "rev s"] by (cases "find_first_not_of (rev s)") auto
  then obtain e where e: "find_last_not_of s = Some e"
    by (simp add: find_last_not_of_def)
  from find_first_not_of_Some [OF Some]
  have st: "start = length (takeWhile trim_ws s)" "start < length s" by simp_all
  have "take (e - start + 1) (drop start s) \<noteq> []"
    using st(2) by simp
  then show ?thesis using ns Some e by (simp add: trim_def substr_def)
qed

lemma trim_hd:
  assumes "trim s \<noteq> []"
  shows "hd (trim s) = hd (dropWhile trim_ws s)"
proof -
  from assms obtain start where S: "find_first_not_of s = Some start"
    by (cases "find_first_not_of s") (auto simp: trim_def)
  from assms S obtain e where E: "find_last_not_of s = Some e"
    by (cases "find_last_not_of s") (auto simp: trim_def)
  from find_first_not_of_Some [OF S]
  have st: "start = length (takeWhile trim_ws s)" "start < length s" by simp_all
  have d: "drop start s = dropWhile trim_ws s"
    unfolding st(1) by (rule dropWhile_eq_drop [symmetric])
  have ne: "dropWhile trim_ws s \<noteq> []"
    using st(2) d by (metis drop_eq_Nil not_le)
  have "trim s = take (e - start + 1) (dropWhile trim_ws s)"
    using S E d by (simp add: trim_def substr_def)
  then show ?thesis using ne by (cases "dropWhile trim_ws s") simp_all
qed

lemma dropWhile_empty_iff: "dropWhile trim_ws s = [] \<longleftrightarrow> (\<forall>c \<in> set s. trim_ws c)"
  by (induction s) auto

section \<open>Comment lines\<close>

text \<open>
  What \<^verbatim>\<open>isComment\<close> accepts: a line that is blank after trimming, or whose first
  character after the leading spaces, tabs, carriage returns and line feeds is \<^verbatim>\<open>#\<close>,
  \<^verbatim>\<open>C\<close> or \<^verbatim>\<open>c\<close>; the line loop skips such a line whatever the current section is.
\<close>

lemma isComment_iff:
  "(isComment line \<longleftrightarrow>
      (dropWhile trim_ws line = [] \<or>
       hd (dropWhile trim_ws line) = CHR ''#'' \<or>
       hd (dropWhile trim_ws line) = CHR ''C'' \<or>
       hd (dropWhile trim_ws line) = CHR ''c'')) \<and>
   (isComment line \<longrightarrow>
      parseLines L (line # rest) lineNumber currentState s
        = parseLines L rest (lineNumber + 1) currentState s)"
proof
  show "isComment line \<longleftrightarrow>
      (dropWhile trim_ws line = [] \<or>
       hd (dropWhile trim_ws line) = CHR ''#'' \<or>
       hd (dropWhile trim_ws line) = CHR ''C'' \<or>
       hd (dropWhile trim_ws line) = CHR ''c'')"
  proof (cases "trim line = []")
    case True
    then show ?thesis
      by (simp add: isComment_def trim_empty_iff dropWhile_empty_iff)
  next
    case False
    then have "dropWhile trim_ws line \<noteq> []"
      by (simp add: trim_empty_iff dropWhile_empty_iff)
    moreover from False have "hd (trim line) = hd (dropWhile trim_ws line)"
      by (rule trim_hd)
    ultimately show ?thesis using False
      by (auto simp: isComment_def Let_def)
  qed
  show "isComment line \<longrightarrow>
      parseLines L (line # rest) lineNumber currentState s
        = parseLines L rest (lineNumber + 1) currentState s"
    by simp
qed

section \<open>Evaluating the reader on concrete text\<close>

lemma getlines_Nil: "getlines d [] = []"
  by (simp add: getlines.simps [of d "[]"])

lemma clear_eq_newReader: "clear s = newReader"
  by (cases s) (simp add: clear_def clearError_def clearLookupTables_def newReader_def)

lemma parseFile_empty: "parseFile L [] s = (True, s)"
  by (simp add: parseFile_def getlines_Nil)

lemma stoi_1: "stoi ''1'' = Some 1"
  by code_simp

lemma stoi_2: "stoi ''2'' = Some 2"
  by code_simp

lemma stoi_3: "stoi ''3'' = Some 3"
  by code_simp

lemma marker_SHELL:
  "\<not> isEmpty ''/SHELL''" "\<not> isComment ''/SHELL''" "determineSection ''/SHELL'' = STATE_ELEMENTS"
  by code_simp+

lemma line_element_123:
  "\<not> isEmpty ''1 1 1 1 2 3''" "\<not> isComment ''1 1 1 1 2 3''"
  "determineSection ''1 1 1 1 2 3'' = STATE_UNKNOWN"
  "tokenizeLine ''1 1 1 1 2 3'' = [''1'', ''1'', ''1'', ''1'', ''2'', ''3'']"
  by code_simp+

lemma line_END:
  "\<not> isEmpty ''/END''" "\<not> isComment ''/END''" "determineSection ''/END'' = STATE_UNKNOWN"
  "tokenizeLine ''/END'' = [''/END'']"
  by code_simp+

section \<open>Loading: the previous state, unopenable and empty files\<close>

text \<open>
  Claim C10.  \<^verbatim>\<open>loadFile\<close> clears the reader before it tries to open the file: its
  result is the one it gives on a fresh reader, whatever was loaded before.  When the
  file cannot be opened it returns \<^verbatim>\<open>false\<close>, every collection and lookup table is
  empty, the reader is not valid, and the last-error string is
  \<^verbatim>\<open>Cannot open file: \<close> followed by the name, hence not empty.
\<close>

theorem loadFile_clears_first:
  "loadFile L fs name s = loadFile L fs name newReader \<and>
   (fs name = None \<longrightarrow>
      (case loadFile L fs name s of (ok, s') \<Rightarrow>
         \<not> ok \<and> nodes s' = [] \<and> elements s' = [] \<and> materials s' = [] \<and> properties s' = [] \<and>
         loadCases s' = [] \<and> boundaryConditions s' = [] \<and> title s' = [] \<and>
         nodeIdToIndex s' = Map.empty \<and> elementIdToIndex s' = Map.empty \<and>
         materialIdToIndex s' = Map.empty \<and> propertyIdToIndex s' = Map.empty \<and>
         \<not> isValid s' \<and> lastError s' = ''Cannot open file: '' @ name \<and> lastError s' \<noteq> []))"
  by (simp add: loadFile_def clear_eq_newReader newReader_def setError_def)

theorem loadFile_clears_first_witness:
  "(\<lambda>n::string. None :: string option) ''missing.rad'' = None \<and>
   (case loadFile whole_lib (\<lambda>n. None) ''missing.rad''
           (newReader\<lparr>title := ''old'', isValid := True\<rparr>) of
      (ok, s') \<Rightarrow> \<not> ok \<and> nodes s' = [] \<and> title s' = [] \<and> \<not> isValid s' \<and> lastError s' \<noteq> [])"
proof -
  let ?s = "newReader\<lparr>title := ''old'', isValid := True\<rparr> :: (int, int) RadFileReader"
  let ?fs = "\<lambda>n::string. None :: string option"
  have h: "?fs ''missing.rad'' = None" by simp
  note loadFile_clears_first [of whole_lib ?fs "''missing.rad''" ?s, THEN conjunct2, THEN mp, OF h]
  then show ?thesis by (simp add: case_prod_beta)
qed

text \<open>
  Claim C3, on the reader of \<^verbatim>\<open>src/io/RadFileReader.cpp\<close>: an empty file, which has no
  node record, is loaded with result \<^verbatim>\<open>true\<close> (the validation pass accepts empty
  collections); the bounding box afterwards is the pair of origins.
\<close>

theorem loadFile_empty_file_returns_true:
  "fst (loadFile L (\<lambda>n. Some []) name s) = True \<and>
   getBoundingBox (snd (loadFile L (\<lambda>n. Some []) name s)) = (vec3_zero, vec3_zero)"
  by (simp add: loadFile_def clear_eq_newReader parseFile_empty newReader_def Let_def
      buildLookupTables_def clearLookupTables_def validateData_def validateNodes_def
      validateElements_def validateReferences_def getBoundingBox_def)

section \<open>Unrecognised markers\<close>

lemma deck_unknown_marker_lines:
  "getlines LF deck_unknown_marker = [''/SHELL'', ''1 1 1 1 2 3'', ''/END'', ''2 1 1 4 5 6'']"
  by code_simp

text \<open>
  Claim C2, evaluated on the deck \<open>deck_unknown_marker\<close>.  In an element section the
  line \<^verbatim>\<open>/END\<close>, whose keyword is not
  in the table, does not move the parser to the Unknown state: it is handed to
  \<^verbatim>\<open>parseElement\<close>, which rejects it, and \<^verbatim>\<open>parseFile\<close> returns \<^verbatim>\<open>false\<close> with a parse
  error for line 3.  The element line after it is never read.
\<close>

theorem parseFile_unknown_marker_aborts:
  "parseFile L deck_unknown_marker s =
     (False,
      s\<lparr>elements := elements s @
           [\<lparr>elem_id = 1, elem_type = TRIA3, materialId = 1, propertyId = 1,
             nodeIds = [1, 2, 3]\<rparr>],
        lastError := ''Parse error at line 3: /END''\<rparr>)"
  unfolding parseFile_def deck_unknown_marker_lines
  by (simp add: marker_SHELL line_element_123 line_END stoi_1 stoi_2 stoi_3 parseContent_def
      parseElement_def typeOfNodeCount_def setError_def to_string_def)

section \<open>Boundary-condition lines\<close>

lemma bc_line_tokens: "tokenizeLine ''1 SPC 123 10'' = [''1'', ''SPC'', ''123'', ''10'']"
  by code_simp

lemma bc_line_loop: "parseDofTokens [''123'', ''10''] [] [] = Some ([1, 2, 3, 1], [])"
  by code_simp

text \<open>
  Claim C5, evaluated.  On the line \<^verbatim>\<open>1 SPC 123 10\<close> the token \<^verbatim>\<open>10\<close>, which does not
  consist solely of digits 1 to 6, is read as a degree-of-freedom specification: its digit
  \<^verbatim>\<open>1\<close> is appended to the constrained degrees of freedom and no node identifier is
  stored.
\<close>

theorem parseBoundaryCondition_node_id_read_as_dof:
  "parseBoundaryCondition ''1 SPC 123 10'' s =
     Some (s\<lparr>boundaryConditions := boundaryConditions s @
             [\<lparr>bc_id = 1, bc_type = ''SPC'', bc_nodeIds = [], bc_dofs = [1, 2, 3, 1]\<rparr>]\<rparr>)"
  by (simp add: parseBoundaryCondition_def bc_line_tokens bc_line_loop stoi_1
      del: parseDofTokens.simps)

section \<open>Writing a model and reading it back\<close>

lemma marker_MAT:
  "\<not> isEmpty ''/MAT''" "\<not> isComment ''/MAT''" "determineSection ''/MAT'' = STATE_MATERIALS"
  by code_simp+

lemma line_1_LAW1:
  "\<not> isEmpty ''1 LAW1''" "\<not> isComment ''1 LAW1''"
  "determineSection ''1 LAW1'' = STATE_UNKNOWN"
  "tokenizeLine ''1 LAW1'' = [''1'', ''LAW1'']"
  by code_simp+

lemma deck_material_lines: "getlines LF deck_material = [''/MAT'', ''1 LAW1'']"
  by code_simp

lemma parse_deck_material:
  "parseFile L deck_material s = (True, s\<lparr>materials := materials s @ [material_1]\<rparr>)"
  unfolding parseFile_def deck_material_lines
  by (simp add: marker_MAT line_1_LAW1 parseContent_def parseMaterial_def stoi_1 material_1_def)

lemma loadFile_parsed:
  assumes "parseFile L file (newReader\<lparr>filename := name\<rparr>) = (True, s1)"
  shows "fst (loadFile L (\<lambda>n. Some file) name s) = validateData (buildLookupTables s1)"
    and "snd (loadFile L (\<lambda>n. Some file) name s) =
          (let s2 = buildLookupTables s1
           in if validateData s2 then s2\<lparr>isValid := True\<rparr>
              else s2\<lparr>isValid := False, lastError := ''File validation failed''\<rparr>)"
  using assms by (simp_all add: loadFile_def clear_eq_newReader Let_def setError_def)

lemma loadFile_rejected:
  assumes "parseFile L file (newReader\<lparr>filename := name\<rparr>) = (False, s1)"
  shows "loadFile L (\<lambda>n. Some file) name s = (False, s1)"
  using assms by (simp add: loadFile_def clear_eq_newReader)

lemma build_fields:
  "nodes (buildLookupTables s) = nodes s" "elements (buildLookupTables s) = elements s"
  "materials (buildLookupTables s) = materials s"
  "properties (buildLookupTables s) = properties s"
  "loadCases (buildLookupTables s) = loadCases s"
  "boundaryConditions (buildLookupTables s) = boundaryConditions s"
  "title (buildLookupTables s) = title s" "isValid (buildLookupTables s) = isValid s"
  by (simp_all add: buildLookupTables_def clearLookupTables_def Let_def)

lemma validateData_no_elements: "nodes s = [] \<Longrightarrow> elements s = [] \<Longrightarrow> validateData s"
  by (simp add: validateData_def validateNodes_def validateElements_def validateReferences_def)

lemma load_deck_material:
  fixes L :: "('f::zero, 'd) numlib"
  shows "fst (loadFile L (\<lambda>n. Some deck_material) name s) = True"
    and "snd (loadFile L (\<lambda>n. Some deck_material) name s) =
           (buildLookupTables (newReader\<lparr>filename := name, materials := [material_1]\<rparr>))
             \<lparr>isValid := True\<rparr>"
proof -
  let ?s0 = "newReader\<lparr>filename := name\<rparr> :: ('f, 'd) RadFileReader"
  let ?s1 = "?s0\<lparr>materials := materials ?s0 @ [material_1]\<rparr>"
  have v: "validateData (buildLookupTables ?s1)"
    by (rule validateData_no_elements) (simp_all add: build_fields newReader_def)
  show "fst (loadFile L (\<lambda>n. Some deck_material) name s) = True"
    using v by (simp add: loadFile_parsed(1) [OF parse_deck_material])
  have "materials ?s0 = []" by (simp add: newReader_def)
  then show "snd (loadFile L (\<lambda>n. Some deck_material) name s) =
           (buildLookupTables (newReader\<lparr>filename := name, materials := [material_1]\<rparr>))
             \<lparr>isValid := True\<rparr>"
    using v by (simp add: loadFile_parsed(2) [OF parse_deck_material])
qed

lemma deck_material_saved_lines:
  "getlines LF deck_material_saved
   = [''#RADIOSS STARTER'', ''/BEGIN'', ''/MAT/LAW1'', ''         1'']"
  by code_simp

lemma line_RADIOSS_STARTER: "isComment ''#RADIOSS STARTER''"
  by code_simp

lemma line_BEGIN:
  "\<not> isEmpty ''/BEGIN''" "\<not> isComment ''/BEGIN''" "determineSection ''/BEGIN'' = STATE_UNKNOWN"
  "\<not> str_contains ''/BEGIN'' ''#RADIOSS''"
  by code_simp+

lemma marker_MAT_LAW1:
  "\<not> isEmpty ''/MAT/LAW1''" "\<not> isComment ''/MAT/LAW1''"
  "determineSection ''/MAT/LAW1'' = STATE_MATERIALS"
  by code_simp+

lemma line_padded_1:
  "\<not> isEmpty ''         1''" "\<not> isComment ''         1''"
  "determineSection ''         1'' = STATE_UNKNOWN" "tokenizeLine ''         1'' = [''1'']"
  by code_simp+

lemma setw_10_1: "setw 10 (to_string 1) = ''         1''"
  by code_simp

lemma parseHeader_plain: "\<not> str_contains line ''#RADIOSS'' \<Longrightarrow> parseHeader line s = Some s"
  by (simp add: parseHeader_def)

lemma iterated_Nil: "iterated order [] = []"
  by (simp add: iterated_def)

lemma save_material:
  "saveFile L True
     ((buildLookupTables (newReader\<lparr>filename := name, materials := [material_1]\<rparr>))
        \<lparr>isValid := True\<rparr>)
   = Some deck_material_saved"
  by (simp add: saveFile_def writeHeader_def writeNodes_def writeElements_def writeMaterials_def
      writeProperties_def writeLoadCases_def writeBoundaryConditions_def build_fields
      newReader_def material_1_def setw_10_1 deck_material_saved_def typesInserted_def
      iterated_Nil)

lemma parse_deck_material_saved:
  "parseFile L deck_material_saved s =
     (False, s\<lparr>lastError := ''Parse error at line 4:          1''\<rparr>)"
  unfolding parseFile_def deck_material_saved_lines
  by (simp add: line_RADIOSS_STARTER line_BEGIN(1-3) marker_MAT_LAW1 line_padded_1 parseContent_def
      parseHeader_plain [OF line_BEGIN(4)] parseMaterial_def setError_def to_string_def)

text \<open>
  Claim C8, evaluated.  The deck \<open>deck_material\<close> loads with result \<^verbatim>\<open>true\<close> and one
  material.  \<^verbatim>\<open>saveFile\<close> then writes \<open>deck_material_saved\<close>, whose material record is
  the single token \<^verbatim>\<open>1\<close>; reading that text back, \<^verbatim>\<open>parseMaterial\<close> rejects the record,
  \<^verbatim>\<open>loadFile\<close> returns \<^verbatim>\<open>false\<close> and the reader holds no material.
\<close>

theorem saveFile_then_loadFile_loses_material:
  fixes L :: "('f::zero, 'd) numlib"
  shows
    "fst (loadFile L (\<lambda>n. Some deck_material) ''in.rad'' newReader) = True \<and>
     length (materials (snd (loadFile L (\<lambda>n. Some deck_material) ''in.rad'' newReader))) = 1 \<and>
     saveFile L True (snd (loadFile L (\<lambda>n. Some deck_material) ''in.rad'' newReader))
       = Some deck_material_saved \<and>
     fst (loadFile L (\<lambda>n. Some deck_material_saved) ''out.rad'' newReader) = False \<and>
     length (materials (snd (loadFile L (\<lambda>n. Some deck_material_saved) ''out.rad'' newReader)))
       = 0"
proof -
  have "materials (newReader :: ('f, 'd) RadFileReader) = []"
    by (simp add: newReader_def)
  then show ?thesis
    by (simp add: load_deck_material save_material loadFile_rejected [OF parse_deck_material_saved]
        build_fields)
qed

section \<open>The model store keeps its indices consistent\<close>

lemma index_consistent_empty: "index_consistent key [] Map.empty"
  by (simp add: index_consistent_def)

lemma index_consistent_push:
  assumes "index_consistent key xs idx"
  shows "index_consistent key (xs @ [x]) (idx(key x \<mapsto> length xs))"
  unfolding index_consistent_def
proof (intro allI impI)
  fix k i
  assume a: "(idx(key x \<mapsto> length xs)) k = Some i"
  show "i < length (xs @ [x]) \<and> key ((xs @ [x]) ! i) = k"
  proof (cases "k = key x")
    case True
    with a have "i = length xs" by simp
    with True show ?thesis by simp
  next
    case False
    with a have "idx k = Some i" by simp
    with assms have "i < length xs" "key (xs ! i) = k"
      by (auto simp: index_consistent_def)
    then show ?thesis by (simp add: nth_append)
  qed
qed

lemma nth_erase_at:
  "i < length xs \<Longrightarrow> j < length xs - 1 \<Longrightarrow>
   erase_at i xs ! j = (if j < i then xs ! j else xs ! Suc j)"
  by (auto simp: erase_at_def nth_append min_def)

lemma length_erase_at: "i < length xs \<Longrightarrow> length (erase_at i xs) = length xs - 1"
  by (auto simp: erase_at_def)

lemma index_consistent_erase:
  assumes inv: "index_consistent key xs idx" and at: "idx k = Some i"
  shows "index_consistent key (erase_at i xs) (erase_key_and_shift k i idx)"
  unfolding index_consistent_def
proof (intro allI impI)
  fix k' j'
  assume a: "erase_key_and_shift k i idx k' = Some j'"
  from inv at have i: "i < length xs" "key (xs ! i) = k"
    by (auto simp: index_consistent_def)
  from a have ne: "k' \<noteq> k"
    by (auto simp: erase_key_and_shift_def split: if_splits)
  with a obtain j where j: "idx k' = Some j" and j': "j' = (if j > i then j - 1 else j)"
    by (auto simp: erase_key_and_shift_def)
  from inv j have jj: "j < length xs" "key (xs ! j) = k'"
    by (auto simp: index_consistent_def)
  with i ne have "j \<noteq> i" by auto
  show "j' < length (erase_at i xs) \<and> key (erase_at i xs ! j') = k'"
  proof (cases "j > i")
    case True
    then have "j' = j - 1" "j' < length xs - 1" "\<not> j' < i" "Suc j' = j"
      using j' jj(1) by auto
    then show ?thesis using i(1) jj(2) by (simp add: length_erase_at nth_erase_at)
  next
    case False
    with \<open>j \<noteq> i\<close> have "j < i" by simp
    then have "j' = j" "j' < length xs - 1" "j' < i"
      using j' i(1) by auto
    then show ?thesis using i(1) jj(2) by (simp add: length_erase_at nth_erase_at)
  qed
qed

lemma model_inv_new: "model_inv newModel"
  by (simp add: model_inv_def newModel_def index_consistent_empty)

lemma apply_op_inv:
  assumes "model_inv m"
  shows "\<exists>m'. apply_op op m = Inr m' \<and> model_inv m'"
proof (cases op)
  case (OpAddNode node)
  then show ?thesis using assms
    by (simp add: AddNode_def model_inv_def index_consistent_push)
next
  case (OpRemoveNode nodeId)
  show ?thesis
  proof (cases "m_NodeIdToIndex m nodeId")
    case None
    then show ?thesis using assms OpRemoveNode by (simp add: RemoveNode_def)
  next
    case (Some i)
    with assms have "i < length (m_Nodes m)"
      by (auto simp: model_inv_def index_consistent_def)
    then show ?thesis using assms OpRemoveNode Some
      by (simp add: RemoveNode_def model_inv_def index_consistent_erase)
  qed
next
  case (OpAddElement element)
  then show ?thesis using assms
    by (simp add: AddElement_def model_inv_def index_consistent_push)
next
  case (OpRemoveElement elementId)
  show ?thesis
  proof (cases "m_ElementIdToIndex m elementId")
    case None
    then show ?thesis using assms OpRemoveElement by (simp add: RemoveElement_def)
  next
    case (Some i)
    with assms have "i < length (m_Elements m)"
      by (auto simp: model_inv_def index_consistent_def)
    then show ?thesis using assms OpRemoveElement Some
      by (simp add: RemoveElement_def model_inv_def index_consistent_erase)
  qed
next
  case (OpAddMaterial material)
  then show ?thesis using assms
    by (simp add: AddMaterial_def model_inv_def index_consistent_push)
next
  case OpClear
  then show ?thesis
    by (simp add: Clear_def model_inv_def index_consistent_empty)
qed

lemma run_ops_inv: "model_inv m \<Longrightarrow> \<exists>m'. run_ops ops m = Inr m' \<and> model_inv m'"
proof (induction ops arbitrary: m)
  case Nil
  then show ?case by simp
next
  case (Cons op ops)
  from apply_op_inv [OF Cons.prems, of op]
  obtain m1 where m1: "apply_op op m = Inr m1" "model_inv m1" by blast
  from Cons.IH [OF m1(2)] m1(1) show ?case by simp
qed

lemma lookup_consistent:
  assumes "index_consistent key xs idx"
  shows "case idx k of
           None \<Rightarrow> True
         | Some i \<Rightarrow> i < length xs \<and> xs ! i \<in> set xs \<and> key (xs ! i) = k"
  using assms by (auto simp: index_consistent_def split: option.splits)

text \<open>
  Claim C9.  Every finite sequence of AddNode, RemoveNode, AddElement, RemoveElement,
  AddMaterial and Clear, run on the empty model, ends without an out-of-range access, and
  in the model it reaches, for every identifier, \<^verbatim>\<open>GetNode\<close> returns null when the index
  has no entry for it and otherwise a node that is stored in the node collection and
  carries that identifier; likewise \<^verbatim>\<open>GetElement\<close> and \<^verbatim>\<open>GetMaterial\<close>.
\<close>

theorem model_lookup_consistent:
  "\<exists>m. run_ops ops newModel = Inr m \<and>
     (\<forall>i. case m_NodeIdToIndex m i of
             None \<Rightarrow> GetNode m i = Inr None
           | Some k \<Rightarrow> \<exists>n \<in> set (m_Nodes m). GetNode m i = Inr (Some n) \<and> cn_id n = i) \<and>
     (\<forall>i. case m_ElementIdToIndex m i of
             None \<Rightarrow> GetElement m i = Inr None
           | Some k \<Rightarrow> \<exists>e \<in> set (m_Elements m). GetElement m i = Inr (Some e) \<and> ce_id e = i) \<and>
     (\<forall>i. case m_MaterialIdToIndex m i of
             None \<Rightarrow> GetMaterial m i = Inr None
           | Some k \<Rightarrow> \<exists>x \<in> set (m_Materials m). GetMaterial m i = Inr (Some x) \<and> cm_id x = i)"
proof -
  from run_ops_inv [OF model_inv_new, of ops]
  obtain m where m: "run_ops ops newModel = Inr m" and inv: "model_inv m" by blast
  have n: "case m_NodeIdToIndex m i of
             None \<Rightarrow> GetNode m i = Inr None
           | Some k \<Rightarrow> \<exists>n \<in> set (m_Nodes m). GetNode m i = Inr (Some n) \<and> cn_id n = i" for i
    using lookup_consistent [of cn_id "m_Nodes m" "m_NodeIdToIndex m" i] inv
    by (auto simp: model_inv_def GetNode_def split: option.splits)
  have e: "case m_ElementIdToIndex m i of
             None \<Rightarrow> GetElement m i = Inr None
           | Some k \<Rightarrow> \<exists>e \<in> set (m_Elements m). GetElement m i = Inr (Some e) \<and> ce_id e = i" for i
    using lookup_consistent [of ce_id "m_Elements m" "m_ElementIdToIndex m" i] inv
    by (auto simp: model_inv_def GetElement_def split: option.splits)
  have x: "case m_MaterialIdToIndex m i of
             None \<Rightarrow> GetMaterial m i = Inr None
           | Some k \<Rightarrow> \<exists>x \<in> set (m_Materials m). GetMaterial m i = Inr (Some x) \<and> cm_id x = i" for i
    using lookup_consistent [of cm_id "m_Materials m" "m_MaterialIdToIndex m" i] inv
    by (auto simp: model_inv_def GetMaterial_def split: option.splits)
  from m n e x show ?thesis by blast
qed

lemma run_ops_add_add_remove:
  assumes "run_ops ops_add_add_remove newModel = Inr m"
  shows "m_Nodes m = [CoreNode_ctor 2 (1, 0, 0)]" and "m_NodeIdToIndex m 2 = Some 0"
    and "m_NodeIdToIndex m 1 = None"
  using assms
  by (auto simp: ops_add_add_remove_def newModel_def AddNode_def RemoveNode_def erase_at_def
      erase_key_and_shift_def CoreNode_ctor_def)

theorem model_lookup_consistent_witness:
  "(case run_ops ops_add_add_remove newModel of
      Inl e \<Rightarrow> False
    | Inr m \<Rightarrow> GetNode m 2 = Inr (Some (CoreNode_ctor 2 (1, 0, 0))) \<and> GetNode m 1 = Inr None)"
proof -
  from model_lookup_consistent [of ops_add_add_remove]
  obtain m where m: "run_ops ops_add_add_remove newModel = Inr m"
    and n: "\<And>i. case m_NodeIdToIndex m i of
             None \<Rightarrow> GetNode m i = Inr None
           | Some k \<Rightarrow> \<exists>n \<in> set (m_Nodes m). GetNode m i = Inr (Some n) \<and> cn_id n = i"
    by blast
  from n [of 2] run_ops_add_add_remove [OF m]
  have "GetNode m 2 = Inr (Some (CoreNode_ctor 2 (1, 0, 0)))" by simp
  moreover from n [of 1] run_ops_add_add_remove [OF m]
  have "GetNode m 1 = Inr None" by simp
  ultimately show ?thesis using m by simp
qed

section \<open>Element lines\<close>

lemma those_map_Some: "those xs = Some ys \<Longrightarrow> map Some ys = xs"
proof (induction xs arbitrary: ys)
  case Nil
  then show ?case by simp
next
  case (Cons x xs)
  then show ?case by (cases x) (auto split: option.splits)
qed

text \<open>
  On the tokens \<^verbatim>\<open>tokenizeLine\<close> produces, \<^verbatim>\<open>parseElement\<close> does what is expected of
  it: an accepted line of \<open>n \<ge> 5\<close> tokens appends one element whose topology is fixed by
  \<open>n - 3\<close> and whose node identifiers are the tokens from the fourth on, in order.
\<close>

lemma parseElement_topology:
  assumes ok: "parseElement line s = Some s'"
    and n: "length (tokenizeLine line) = n" and n5: "5 \<le> n"
  shows "elements s' = elements s @ [last (elements s')] \<and>
         elem_type (last (elements s')) =
           (if n - 3 = 3 then TRIA3 else if n - 3 = 4 then QUAD4
            else if n - 3 = 5 then PYRAM5 else if n - 3 = 6 then PENTA6
            else if n - 3 = 8 then HEXA8 else UNKNOWN) \<and>
         map Some (nodeIds (last (elements s'))) = map stoi (drop 3 (tokenizeLine line))"
proof -
  let ?tokens = "tokenizeLine line"
  from n n5 have len: "\<not> length ?tokens < 3" "length ?tokens - 3 \<ge> 2" by simp_all
  from ok len obtain i m p ns where
    ns: "those (map stoi (drop 3 ?tokens)) = Some ns" and
    s': "s' = s\<lparr>elements := elements s @
            [\<lparr>elem_id = i, elem_type = typeOfNodeCount (length ?tokens - 3),
              materialId = m, propertyId = p, nodeIds = ns\<rparr>]\<rparr>"
    by (auto simp: parseElement_def Let_def split: bind_splits)
  from ns have "map Some ns = map stoi (drop 3 ?tokens)" by (rule those_map_Some)
  with s' n show ?thesis by (simp add: typeOfNodeCount_def)
qed

lemma line_tab_separated_tokens:
  "whitespaceTokens line_tab_separated = [''7'', ''1'', ''2'', ''10'', ''20'', ''30'', ''40'']"
  "tokenizeLine line_tab_separated = [''7'', ''1'', ''2'', token_10_tab_20, ''30'', ''40'']"
  by code_simp+

lemma line_tab_separated_stoi:
  "stoi ''7'' = Some 7" "stoi token_10_tab_20 = Some 10"
  "stoi ''30'' = Some 30" "stoi ''40'' = Some 40"
  by code_simp+

text \<open>
  Claim C7, evaluated on \<open>line_tab_separated\<close>.  The line has seven whitespace tokens,
  four of them node identifiers.  \<^verbatim>\<open>tokenizeLine\<close> splits at spaces only, so the tab
  stays inside the token \<open>token_10_tab_20\<close>, which \<^verbatim>\<open>std::stoi\<close> reads as 10: the element is
  stored as a 3-node shell on the nodes 10, 30 and 40, and node 20 is lost.
\<close>

theorem parseElement_tab_loses_node:
  "whitespaceTokens line_tab_separated = [''7'', ''1'', ''2'', ''10'', ''20'', ''30'', ''40''] \<and>
   parseElement line_tab_separated s =
     Some (s\<lparr>elements := elements s @
             [\<lparr>elem_id = 7, elem_type = TRIA3, materialId = 1, propertyId = 2,
               nodeIds = [10, 30, 40]\<rparr>]\<rparr>)"
  by (simp add: parseElement_def line_tab_separated_tokens line_tab_separated_stoi stoi_1 stoi_2
      typeOfNodeCount_def)

section \<open>Validation\<close>








section \<open>A rejected data line stops the read\<close>

lemma parseLines_prefix_accepted:
  "parseLines L pre n st s = (True, s1) \<Longrightarrow>
   parseLines L (pre @ rest) n st s = parseLines L rest (n + length pre) (stateAfter pre st) s1"
proof (induction pre arbitrary: n st s)
  case Nil
  then show ?case by simp
next
  case (Cons line pre)
  then show ?case
    by (auto split: if_splits option.splits)
qed

text \<open>
  The general shape of the abort: when the lines before a data line have been read without
  error and the parser of the section then active rejects that line, \<^verbatim>\<open>parseFile\<close>
  returns \<^verbatim>\<open>false\<close>, the last-error string names the line and its number, and no later
  line has any effect on the result.
\<close>

lemma parseFile_aborts_at_rejected_line:
  assumes lines: "getlines LF file = pre @ line # rest"
    and pre: "parseLines L pre 0 STATE_HEADER s = (True, s1)"
    and data: "isDataLine line"
    and rejected: "parseContent L (stateAfter pre STATE_HEADER) line s1 = None"
  shows "parseFile L file s =
           (False, s1\<lparr>lastError := ''Parse error at line '' @ to_string (int (length pre + 1))
                                     @ '': '' @ line\<rparr>)"
proof -
  have "parseFile L file s = parseLines L (line # rest) (length pre) (stateAfter pre STATE_HEADER) s1"
    using parseLines_prefix_accepted [OF pre, of "line # rest"] lines by (simp add: parseFile_def)
  also have "\<dots> = (False, s1\<lparr>lastError := ''Parse error at line '' @ to_string (int (length pre + 1))
                                     @ '': '' @ line\<rparr>)"
    using data rejected by (simp add: isDataLine_def setError_def)
  finally show ?thesis .
qed

lemma deck_short_node_record_lines:
  "getlines LF deck_short_node_record
   = [''/SHELL'', ''1 1 1 1 2 3'', ''/NODE'', ''5 1.0 2.0'', ''2 1 0 0'']"
  by code_simp

lemma marker_NODE:
  "\<not> isEmpty ''/NODE''" "\<not> isComment ''/NODE''" "determineSection ''/NODE'' = STATE_NODES"
  by code_simp+

lemma line_short_node:
  "\<not> isEmpty ''5 1.0 2.0''" "\<not> isComment ''5 1.0 2.0''"
  "determineSection ''5 1.0 2.0'' = STATE_UNKNOWN"
  "tokenizeLine ''5 1.0 2.0'' = [''5'', ''1.0'', ''2.0'']"
  by code_simp+

text \<open>
  Claim C1, evaluated on \<open>deck_short_node_record\<close>.  The node record \<^verbatim>\<open>5 1.0 2.0\<close> has
  three tokens and \<^verbatim>\<open>parseNode\<close> rejects it.  The line is not skipped: \<^verbatim>\<open>parseFile\<close>
  returns \<^verbatim>\<open>false\<close> with a parse error for line 4, and the well-formed node record after it
  is never read, so the reader holds the element of line 2 and no node.
\<close>

theorem parseFile_short_node_record_aborts:
  "parseFile L deck_short_node_record s =
     (False,
      s\<lparr>elements := elements s @
           [\<lparr>elem_id = 1, elem_type = TRIA3, materialId = 1, propertyId = 1,
             nodeIds = [1, 2, 3]\<rparr>],
        lastError := ''Parse error at line 4: 5 1.0 2.0''\<rparr>)"
  unfolding parseFile_def deck_short_node_record_lines
  by (simp add: marker_SHELL line_element_123 marker_NODE line_short_node stoi_1 stoi_2 stoi_3
      parseContent_def parseElement_def parseNode_def typeOfNodeCount_def setError_def
      to_string_def)

section \<open>A line that starts with a dollar sign\<close>

lemma deck_dollar_comment_lines:
  "getlines LF deck_dollar_comment = [''/NODE'', ''$ comment'', ''1 0 0 0'']"
  by code_simp

lemma line_dollar:
  "\<not> isEmpty ''$ comment''" "\<not> isComment ''$ comment''"
  "determineSection ''$ comment'' = STATE_UNKNOWN"
  "tokenizeLine ''$ comment'' = [''$'', ''comment'']" "IsCommentLine ''$ comment''"
  by code_simp+

text \<open>
  Claim C6, evaluated on \<open>deck_dollar_comment\<close>.  \<^verbatim>\<open>isComment\<close> does not take the line
  \<^verbatim>\<open>$ comment\<close> for a comment, while \<^verbatim>\<open>IsCommentLine\<close> of the other reader does.  In a
  node section the line therefore reaches \<^verbatim>\<open>parseNode\<close>, which rejects its two tokens, and
  \<^verbatim>\<open>parseFile\<close> returns \<^verbatim>\<open>false\<close> with a parse error for line 2; the node record after it
  is never read.
\<close>

theorem isComment_dollar_line_is_data:
  "\<not> isComment ''$ comment'' \<and> IsCommentLine ''$ comment'' \<and>
   parseFile L deck_dollar_comment s =
     (False, s\<lparr>lastError := ''Parse error at line 2: $ comment''\<rparr>)"
  unfolding parseFile_def deck_dollar_comment_lines
  by (simp add: marker_NODE line_dollar parseContent_def parseNode_def setError_def
      to_string_def)

end
